theory Spec2Isabelle
  imports Complex_Main "HOL-Library.Multiset"
begin

section \<open>Python strings\<close>

text \<open>
  A Python \<open>str\<close> is modelled as a \<open>string\<close> whose characters are the code points
  below 256 (Latin-1). On that range \<open>str.isspace\<close> holds for exactly twelve code
  points and \<open>str.lower\<close> moves the letters A-Z and the accented capitals
  (192-222 without the multiplication sign 215) up by 32.
\<close>

definition isspace :: "char \<Rightarrow> bool" where
  "isspace c = (of_char c \<in> {9, 10, 11, 12, 13, 28, 29, 30, 31, 32, 133, 160 :: nat})"

definition lower_char :: "char \<Rightarrow> char" where
  "lower_char c =
     (let n = of_char c :: nat
      in if (65 \<le> n \<and> n \<le> 90) \<or> (192 \<le> n \<and> n \<le> 214) \<or> (216 \<le> n \<and> n \<le> 222)
         then char_of (n + 32) else c)"

definition lower :: "string \<Rightarrow> string" where
  "lower s = map lower_char s"

definition strip :: "string \<Rightarrow> string" where
  "strip s = rev (dropWhile isspace (rev (dropWhile isspace s)))"

definition endswith :: "string \<Rightarrow> string \<Rightarrow> bool" where
  "endswith s suf = (length suf \<le> length s \<and> drop (length s - length suf) s = suf)"

text \<open>\<open>contains sub s\<close> is Python's \<open>sub in s\<close> on strings.\<close>

fun contains :: "string \<Rightarrow> string \<Rightarrow> bool" where
  "contains sub [] = (sub = [])"
| "contains sub (c # cs) = (take (length sub) (c # cs) = sub \<or> contains sub cs)"

section \<open>search\_grant\_links\_google.py: query normalisation\<close>

definition clean_grant_name :: "string \<Rightarrow> string" where
  "clean_grant_name grant_name =
     (let grant_name = strip grant_name
      in if endswith (lower grant_name) ''grant'' \<or> contains '' grant '' (lower grant_name)
         then grant_name
         else grant_name @ '' grant'')"

text \<open>
  The words of a text, as \<open>str.split()\<close> gives them: the maximal runs of characters
  that are not whitespace. This is the reading of "standalone word" that the
  normaliser is compared with; it is not part of the script.
\<close>

fun split_words :: "string \<Rightarrow> string \<Rightarrow> string list" where
  "split_words acc [] = (if acc = [] then [] else [acc])"
| "split_words acc (c # cs) =
     (if isspace c then (if acc = [] then split_words [] cs else acc # split_words [] cs)
      else split_words (acc @ [c]) cs)"

definition standalone_word :: "string \<Rightarrow> string \<Rightarrow> bool" where
  "standalone_word w s = (w \<in> set (split_words [] s))"

section \<open>Python values, exceptions and HTTP outcomes\<close>

text \<open>
  A Python number, \<open>int\<close> or \<open>float\<close>: the rational it denotes (Python's \<open>1\<close> and
  \<open>1.0\<close> are equal and hash alike), or one of the three special floats. The
  rounding of floating-point arithmetic is not modelled.
\<close>

datatype pynum = Num rat | PosInf | NegInf | NaN

text \<open>
  What \<open>response.json()\<close> returns: any JSON value. An object is the parsed
  \<open>dict\<close>, its keys distinct, in insertion order.
\<close>

datatype json =
  JNull
| JBool bool
| JNum pynum
| JStr string
| JArr "json list"
| JObj "(string \<times> json) list"

text \<open>
  The exception classes. All but \<open>KeyboardInterrupt\<close> derive from \<open>Exception\<close>.
  \<open>Timeout\<close>, \<open>ConnectionError\<close>, \<open>HTTPError\<close> and the \<open>JSONDecodeError\<close> that
  \<open>response.json()\<close> raises on a body that is not JSON derive from
  \<open>requests.RequestException\<close> (the last one since requests 2.27), as do the
  classes under \<open>OtherRequestException\<close>. \<open>OtherException\<close> stands for every further
  class that derives from \<open>Exception\<close> and not from \<open>RequestException\<close>.
\<close>

datatype exn =
  Timeout
| ConnectionError
| HTTPError
| JSONDecodeError
| OtherRequestException string
| AttributeError
| TypeError
| ValueError
| OverflowError
| RecursionError
| ZeroDivisionError
| OtherException string
| KeyboardInterrupt

definition is_Exception :: "exn \<Rightarrow> bool" where
  "is_Exception e = (e \<noteq> KeyboardInterrupt)"

fun is_RequestException :: "exn \<Rightarrow> bool" where
  "is_RequestException Timeout = True"
| "is_RequestException ConnectionError = True"
| "is_RequestException HTTPError = True"
| "is_RequestException JSONDecodeError = True"
| "is_RequestException (OtherRequestException name) = True"
| "is_RequestException _ = False"

text \<open>
  A response carries its status code, its body and what \<open>response.json()\<close> does
  with the body: it returns the parsed value or it raises, \<open>JSONDecodeError\<close> on a
  body that is not JSON, \<open>RecursionError\<close> on a body nested too deeply,
  \<open>ValueError\<close> on an integer literal with too many digits.
\<close>

record response =
  status_code :: nat
  body_text :: string
  json_body :: "exn + json"

text \<open>The outcome of one \<open>requests.get\<close>: it raises or it returns a response.\<close>

datatype outcome = Raises exn | Returns response

definition response_json :: "response \<Rightarrow> exn + json" where
  "response_json response = json_body response"

text \<open>
  An outcome is interrupted when the user interrupts the call, or the parsing of a
  reply with status 200.
\<close>

definition interrupted :: "outcome \<Rightarrow> bool" where
  "interrupted out =
     (case out of
        Raises e \<Rightarrow> e = KeyboardInterrupt
      | Returns r \<Rightarrow> status_code r = 200 \<and> json_body r = Inl KeyboardInterrupt)"

text \<open>Truth value of a Python object, as \<open>if x:\<close> tests it.\<close>

fun truthy :: "json \<Rightarrow> bool" where
  "truthy JNull = False"
| "truthy (JBool b) = b"
| "truthy (JNum n) = (n \<noteq> Num 0)"
| "truthy (JStr s) = (s \<noteq> [])"
| "truthy (JArr xs) = (xs \<noteq> [])"
| "truthy (JObj kvs) = (kvs \<noteq> [])"

text \<open>\<open>x.get(key, dflt)\<close>: only a \<open>dict\<close> has the method.\<close>

fun dict_get :: "json \<Rightarrow> string \<Rightarrow> json \<Rightarrow> exn + json" where
  "dict_get (JObj kvs) key dflt =
     Inr (case map_of kvs key of None \<Rightarrow> dflt | Some v \<Rightarrow> v)"
| "dict_get _ key dflt = Inl AttributeError"

text \<open>
  \<open>for x in v\<close>: a list gives its elements, a string its characters, a dict its
  keys; nothing else is iterable.
\<close>

fun py_iter :: "json \<Rightarrow> exn + json list" where
  "py_iter (JArr xs) = Inr xs"
| "py_iter (JStr s) = Inr (map (\<lambda>c. JStr [c]) s)"
| "py_iter (JObj kvs) = Inr (map (\<lambda>kv. JStr (fst kv)) kvs)"
| "py_iter _ = Inl TypeError"

fun py_len :: "json \<Rightarrow> exn + nat" where
  "py_len (JArr xs) = Inr (length xs)"
| "py_len (JStr s) = Inr (length s)"
| "py_len (JObj kvs) = Inr (length kvs)"
| "py_len _ = Inl TypeError"

text \<open>Division of two counters: \<open>a / b\<close> raises when \<open>b\<close> is zero.\<close>

definition py_div :: "nat \<Rightarrow> nat \<Rightarrow> exn + rat" where
  "py_div a b = (if b = 0 then Inl ZeroDivisionError else Inr (of_nat a / of_nat b))"

text \<open>
  The process status the interpreter gives when a script ends: 0 when it runs to
  its end, 130 when a \<open>KeyboardInterrupt\<close> is not caught, 1 for any other
  exception that is not caught.
\<close>

definition exit_status :: "exn option \<Rightarrow> nat" where
  "exit_status r =
     (case r of None \<Rightarrow> 0 | Some e \<Rightarrow> if e = KeyboardInterrupt then 130 else 1)"

section \<open>search\_grant\_links\_google.py: the batch run\<close>

text \<open>
  The backend is the sequence of outcomes of \<open>requests.get\<close>: the outcome of call
  number \<open>k\<close> made with query \<open>q\<close>.
\<close>

type_synonym backend = "nat \<Rightarrow> string \<Rightarrow> outcome"

fun item_links :: "json list \<Rightarrow> exn + json list" where
  "item_links [] = Inr []"
| "item_links (item # items) =
     (case dict_get item ''link'' (JStr []) of
        Inl e \<Rightarrow> Inl e
      | Inr link \<Rightarrow>
          (case item_links items of
             Inl e \<Rightarrow> Inl e
           | Inr links \<Rightarrow> Inr (link # links)))"

text \<open>The body of the \<open>try\<close> of \<open>search_grant_google\<close>.\<close>

definition try_search_grant_google :: "outcome \<Rightarrow> exn + json list" where
  "try_search_grant_google out =
     (case out of
        Raises e \<Rightarrow> Inl e
      | Returns response \<Rightarrow>
          if status_code response = 200 then
            (case response_json response of
               Inl e \<Rightarrow> Inl e
             | Inr data \<Rightarrow>
                 (case dict_get data ''items'' (JArr []) of
                    Inl e \<Rightarrow> Inl e
                  | Inr items \<Rightarrow>
                      if truthy items then
                        (case py_iter items of
                           Inl e \<Rightarrow> Inl e
                         | Inr its \<Rightarrow>
                             (case item_links its of
                                Inl e \<Rightarrow> Inl e
                              | Inr links \<Rightarrow> Inr (filter truthy links)))
                      else Inr []))
          else Inr [])"

text \<open>\<open>except Exception\<close> turns every exception but an interrupt into the empty list.\<close>

definition search_grant_google :: "outcome \<Rightarrow> exn + json list" where
  "search_grant_google out =
     (case try_search_grant_google out of
        Inl e \<Rightarrow> if is_Exception e then Inr [] else Inl e
      | Inr links \<Rightarrow> Inr links)"

text \<open>
  A row of \<open>csv.DictReader\<close>: the column names with the fields of the line, a
  field the line is too short for being \<open>None\<close>.
\<close>

type_synonym csv_row = "(string \<times> string option) list"

text \<open>\<open>row.get('grant_name', '').strip()\<close>; \<open>None\<close> has no \<open>strip\<close>.\<close>

definition row_grant_name :: "csv_row \<Rightarrow> exn + string" where
  "row_grant_name row =
     (case map_of row ''grant_name'' of
        None \<Rightarrow> Inr (strip [])
      | Some None \<Rightarrow> Inl AttributeError
      | Some (Some s) \<Rightarrow> Inr (strip s))"

text \<open>
  The two output files, as the rows written so far (a field is the value handed to
  \<open>csv.writer\<close>), and the counter of queries made.
\<close>

record sinks =
  out_csv :: "json list list"
  out_csv_full :: "json list list"
  query_count :: nat

text \<open>
  The body of the loop over the input rows: the sinks after it, and the exception
  that leaves the loop, if any.
\<close>

definition process_row :: "backend \<Rightarrow> csv_row \<Rightarrow> sinks \<Rightarrow> sinks \<times> exn option" where
  "process_row backend row s =
     (case row_grant_name row of
        Inl e \<Rightarrow> (s, Some e)
      | Inr grant_name \<Rightarrow>
          if grant_name = [] \<or> lower grant_name = ''grant_name'' then (s, None)
          else
            let search_query = clean_grant_name grant_name
            in (case search_grant_google (backend (query_count s) search_query) of
                  Inl e \<Rightarrow> (s, Some e)
                | Inr all_links \<Rightarrow>
                    let s = s\<lparr>query_count := query_count s + 1\<rparr>
                    in (case all_links of
                          first_link # _ \<Rightarrow>
                            (s\<lparr>out_csv := out_csv s @ [[JStr grant_name, JStr search_query, first_link]],
                               out_csv_full := out_csv_full s @
                                 map (\<lambda>link. [JStr grant_name, JStr search_query, link]) all_links\<rparr>,
                             None)
                        | [] \<Rightarrow>
                            (s\<lparr>out_csv := out_csv s @
                                 [[JStr grant_name, JStr search_query, JStr []]]\<rparr>,
                             None))))"

fun process_rows :: "backend \<Rightarrow> csv_row list \<Rightarrow> sinks \<Rightarrow> sinks \<times> exn option" where
  "process_rows backend [] s = (s, None)"
| "process_rows backend (row # rows) s =
     (case process_row backend row s of
        (s', None) \<Rightarrow> process_rows backend rows s'
      | (s', Some e) \<Rightarrow> (s', Some e))"

definition header :: "json list" where
  "header = [JStr ''grant_name'', JStr ''search_query'', JStr ''link'']"

text \<open>
  \<open>main\<close>: the input is \<open>None\<close> when the input file does not exist, else its rows.
  The result is the output files (\<open>None\<close> when they were never opened) and the
  exception that leaves \<open>main\<close>, if any.
\<close>

definition main :: "csv_row list option \<Rightarrow> backend \<Rightarrow> sinks option \<times> exn option" where
  "main input backend =
     (case input of
        None \<Rightarrow> (None, None)
      | Some rows \<Rightarrow>
          (case process_rows backend rows
                  \<lparr>out_csv = [header], out_csv_full = [header], query_count = 0\<rparr> of
             (s, r) \<Rightarrow> (Some s, r)))"

text \<open>
  The script: the two credentials are read from the environment when the module
  is loaded, and \<open>exit(1)\<close> ends the process when one is unset or empty; otherwise
  \<open>main()\<close> runs. The result is the output files and the process status.
\<close>

definition grant_script ::
  "string option \<Rightarrow> string option \<Rightarrow> csv_row list option \<Rightarrow> backend \<Rightarrow> sinks option \<times> nat" where
  "grant_script GOOGLE_API_KEY GOOGLE_SEARCH_ENGINE_ID input backend =
     (if GOOGLE_API_KEY \<in> {None, Some []} \<or> GOOGLE_SEARCH_ENGINE_ID \<in> {None, Some []}
      then (None, 1)
      else (case main input backend of (files, r) \<Rightarrow> (files, exit_status r)))"

section \<open>api\_demo.py: the client\<close>

text \<open>
  What \<open>SearXNGClient.search\<close> returns: the parsed body, \<open>{'html': text}\<close> or
  \<open>{'error': str(e)}\<close>.
\<close>

datatype search_result = Parsed json | Html string | Error exn

definition raise_for_status :: "response \<Rightarrow> exn option" where
  "raise_for_status response =
     (if 400 \<le> status_code response \<and> status_code response < 600 then Some HTTPError else None)"

text \<open>
  \<open>search\<close>, given the outcome of \<open>session.get\<close> and the \<open>format\<close> keyword argument
  (\<open>None\<close> when the caller gives none).
\<close>

definition search :: "outcome \<Rightarrow> string option \<Rightarrow> exn + search_result" where
  "search out format_kw =
     (let format = (case format_kw of None \<Rightarrow> ''json'' | Some f \<Rightarrow> f);
          body =
            (case out of
               Raises e \<Rightarrow> Inl e
             | Returns response \<Rightarrow>
                 (case raise_for_status response of
                    Some e \<Rightarrow> Inl e
                  | None \<Rightarrow>
                      if format = ''json'' then
                        (case response_json response of
                           Inl e \<Rightarrow> Inl e
                         | Inr data \<Rightarrow> Inr (Parsed data))
                      else Inr (Html (body_text response))))
      in case body of
           Inl e \<Rightarrow> if is_RequestException e then Inr (Error e) else Inl e
         | Inr result \<Rightarrow> Inr result)"

section \<open>test\_continuous\_operation.py: the statistics run\<close>

text \<open>
  The keys of a Python \<open>dict\<close> or \<open>set\<close>: \<open>None\<close>, numbers (with \<open>True\<close> and
  \<open>False\<close>, which are the keys 1 and 0) and strings. Lists and dicts are not
  hashable.
\<close>

datatype pykey = KNone | KNum pynum | KStr string

fun hashable :: "json \<Rightarrow> pykey option" where
  "hashable JNull = Some KNone"
| "hashable (JBool b) = Some (KNum (Num (if b then 1 else 0)))"
| "hashable (JNum n) = Some (KNum n)"
| "hashable (JStr s) = Some (KStr s)"
| "hashable (JArr xs) = None"
| "hashable (JObj kvs) = None"

fun is_str :: "pykey \<Rightarrow> bool" where
  "is_str (KStr s) = True"
| "is_str _ = False"

fun is_num :: "pykey \<Rightarrow> bool" where
  "is_num (KNum n) = True"
| "is_num _ = False"

text \<open>
  A \<open>defaultdict(int)\<close>, as its items in iteration order, which is the order in
  which the keys were first stored. \<open>incr k c\<close> is \<open>c[k] += 1\<close>.
\<close>

type_synonym counter = "(pykey \<times> nat) list"

definition incr :: "pykey \<Rightarrow> counter \<Rightarrow> counter" where
  "incr k c =
     (if k \<in> set (map fst c)
      then map (\<lambda>(k', n). if k' = k then (k', n + 1) else (k', n)) c
      else c @ [(k, 1)])"

record stats =
  total_searches :: nat
  successful_searches :: nat
  failed_searches :: nat
  total_results :: nat
  engines_used :: counter
  suspended_engines :: counter
  response_times :: "rat list"

definition queries :: "string list" where
  "queries =
     [''python programming'', ''machine learning'', ''docker containers'',
      ''kubernetes deployment'', ''artificial intelligence'', ''web development'',
      ''data science'', ''cloud computing'', ''cybersecurity'', ''blockchain technology'']"

text \<open>
  The search backend of this script: the outcome of call number \<open>i\<close> made with
  query \<open>q\<close>, and the time the call took.
\<close>

type_synonym timed_backend = "nat \<Rightarrow> string \<Rightarrow> outcome \<times> rat"

text \<open>
  The loop over the engines of one result: \<open>engines_used\<close> and the set of engines
  of this search after it, and the exception that leaves it, if any. What was
  counted before the exception stays counted.
\<close>

fun count_engines ::
  "json list \<Rightarrow> counter \<times> pykey set \<Rightarrow> (counter \<times> pykey set) \<times> exn option" where
  "count_engines [] acc = (acc, None)"
| "count_engines (engine # engines) (used, seen) =
     (case hashable engine of
        None \<Rightarrow> ((used, seen), Some TypeError)
      | Some k \<Rightarrow> count_engines engines (incr k used, insert k seen))"

text \<open>The loop over the results.\<close>

fun track_results ::
  "json list \<Rightarrow> counter \<times> pykey set \<Rightarrow> (counter \<times> pykey set) \<times> exn option" where
  "track_results [] acc = (acc, None)"
| "track_results (result # results) acc =
     (case dict_get result ''engines'' (JArr []) of
        Inl e \<Rightarrow> (acc, Some e)
      | Inr engines \<Rightarrow>
          (case py_iter engines of
             Inl e \<Rightarrow> (acc, Some e)
           | Inr es \<Rightarrow>
               (case count_engines es acc of
                  (acc', Some e) \<Rightarrow> (acc', Some e)
                | (acc', None) \<Rightarrow> track_results results acc')))"

text \<open>The loop over \<open>unresponsive_engines\<close>: only a non-empty list is counted.\<close>

fun track_suspended :: "json list \<Rightarrow> counter \<Rightarrow> counter \<times> exn option" where
  "track_suspended [] c = (c, None)"
| "track_suspended (engine_info # rest) c =
     (case engine_info of
        JArr (engine_name # _) \<Rightarrow>
          (case hashable engine_name of
             None \<Rightarrow> (c, Some TypeError)
           | Some k \<Rightarrow> track_suspended rest (incr k c))
      | _ \<Rightarrow> track_suspended rest c)"



text \<open>
  The second half of the branch for status 200, from \<open>unresponsive_engines\<close> on:
  the statistics after it and the exception that leaves it, if any. The last line
  joins the sorted engine names of this search, which raises unless every one is
  a string.
\<close>

definition track_unresponsive :: "json \<Rightarrow> pykey set \<Rightarrow> stats \<Rightarrow> stats \<times> exn option" where
  "track_unresponsive data engines_in_this_search st =
     (case dict_get data ''unresponsive_engines'' (JArr []) of
        Inl e \<Rightarrow> (st, Some e)
      | Inr unresponsive \<Rightarrow>
          (case py_iter unresponsive of
             Inl e \<Rightarrow> (st, Some e)
           | Inr us \<Rightarrow>
               (case track_suspended us (suspended_engines st) of
                  (suspended, r) \<Rightarrow>
                    let st = st\<lparr>suspended_engines := suspended\<rparr>
                    in (case r of
                          Some e \<Rightarrow> (st, Some e)
                        | None \<Rightarrow>
                            if \<forall>k \<in> engines_in_this_search. is_str k then (st, None)
                            else (st, Some TypeError)))))"

text \<open>The branch for status 200, from \<open>data.get('results', [])\<close> on.\<close>

definition on_status_200 :: "json \<Rightarrow> stats \<Rightarrow> stats \<times> exn option" where
  "on_status_200 data st =
     (case dict_get data ''results'' (JArr []) of
        Inl e \<Rightarrow> (st, Some e)
      | Inr results \<Rightarrow>
          (case py_len results of
             Inl e \<Rightarrow> (st, Some e)
           | Inr num_results \<Rightarrow>
               let st = st\<lparr>successful_searches := successful_searches st + 1,
                           total_results := total_results st + num_results\<rparr>
               in (case py_iter results of
                     Inl e \<Rightarrow> (st, Some e)
                   | Inr rs \<Rightarrow>
                       (case track_results rs (engines_used st, {}) of
                          ((used, engines_in_this_search), r) \<Rightarrow>
                            let st = st\<lparr>engines_used := used\<rparr>
                            in (case r of
                                  Some e \<Rightarrow> (st, Some e)
                                | None \<Rightarrow> track_unresponsive data engines_in_this_search st)))))"

text \<open>The body of the \<open>try\<close> of one iteration.\<close>

definition try_search :: "outcome \<times> rat \<Rightarrow> stats \<Rightarrow> stats \<times> exn option" where
  "try_search call st =
     (case call of
        (Raises e, elapsed) \<Rightarrow> (st, Some e)
      | (Returns response, elapsed) \<Rightarrow>
          let st = st\<lparr>response_times := response_times st @ [elapsed]\<rparr>
          in if status_code response = 200 then
               (case response_json response of
                  Inl e \<Rightarrow> (st, Some e)
                | Inr data \<Rightarrow> on_status_200 data st)
             else (st\<lparr>failed_searches := failed_searches st + 1\<rparr>, None))"

text \<open>
  One iteration without its final sleep: the counter of searches, the \<open>try\<close>, and
  the two handlers, which both count a failure. An interrupt is not an
  \<open>Exception\<close> and leaves the loop.
\<close>

definition search_once :: "timed_backend \<Rightarrow> nat \<Rightarrow> stats \<Rightarrow> stats \<times> exn option" where
  "search_once backend i st =
     (let query = queries ! (i mod length queries);
          st = st\<lparr>total_searches := total_searches st + 1\<rparr>
      in case try_search (backend i query) st of
           (st, None) \<Rightarrow> (st, None)
         | (st, Some e) \<Rightarrow>
             if e = Timeout then (st\<lparr>failed_searches := failed_searches st + 1\<rparr>, None)
             else if is_Exception e then (st\<lparr>failed_searches := failed_searches st + 1\<rparr>, None)
             else (st, Some e))"

text \<open>
  \<open>time.sleep(delay)\<close> between two searches. It raises \<open>ValueError\<close> on NaN; it
  turns the delay into a signed 64-bit number of nanoseconds and raises
  \<open>OverflowError\<close> when that does not fit; it then raises \<open>ValueError\<close> on a
  negative delay. The time that passes is not modelled.
\<close>

definition sleep :: "pynum \<Rightarrow> exn option" where
  "sleep delay =
     (case delay of
        NaN \<Rightarrow> Some ValueError
      | PosInf \<Rightarrow> Some OverflowError
      | NegInf \<Rightarrow> Some OverflowError
      | Num d \<Rightarrow>
          if d * 10 ^ 9 < - (2 ^ 63) \<or> 2 ^ 63 \<le> d * 10 ^ 9 then Some OverflowError
          else if d < 0 then Some ValueError
          else None)"

text \<open>The loop \<open>for i in range(num_searches)\<close>, over the indices still to do.\<close>

fun run_searches ::
  "timed_backend \<Rightarrow> int \<Rightarrow> pynum \<Rightarrow> nat list \<Rightarrow> stats \<Rightarrow> stats \<times> exn option" where
  "run_searches backend num_searches delay [] st = (st, None)"
| "run_searches backend num_searches delay (i # is) st =
     (case search_once backend i st of
        (st', Some e) \<Rightarrow> (st', Some e)
      | (st', None) \<Rightarrow>
          (case (if int i < num_searches - 1 then sleep delay else None) of
             Some e \<Rightarrow> (st', Some e)
           | None \<Rightarrow> run_searches backend num_searches delay is st'))"

definition initial_stats :: stats where
  "initial_stats =
     \<lparr>total_searches = 0, successful_searches = 0, failed_searches = 0, total_results = 0,
      engines_used = [], suspended_engines = [], response_times = []\<rparr>"

text \<open>
  \<open>sorted(stats['engines_used'].items(), key=lambda x: -x[1])\<close> and its first ten
  entries. \<open>sorted\<close> is stable, as \<open>sort_key\<close> is.
\<close>

definition sorted_engines :: "stats \<Rightarrow> (pykey \<times> nat) list" where
  "sorted_engines st = sort_key (\<lambda>x. - int (snd x)) (engines_used st)"

definition top_engines :: "stats \<Rightarrow> (pykey \<times> nat) list" where
  "top_engines st = take 10 (sorted_engines st)"

text \<open>
  \<open>sorted(stats['suspended_engines'].items())\<close> compares the keys, which are
  distinct: it raises when two of them do not compare, a string with a number or
  \<open>None\<close> with anything. Only the exception is modelled, not the order printed.
\<close>

definition sorted_items_raises :: "counter \<Rightarrow> exn option" where
  "sorted_items_raises c =
     (if length c \<le> 1 \<or> (\<forall>k \<in> set (map fst c). is_str k) \<or> (\<forall>k \<in> set (map fst c). is_num k)
      then None else Some TypeError)"

datatype verdict = Excellent | Good | Warning

text \<open>What the summary prints.\<close>

record report =
  successful_pct :: rat
  failed_pct :: rat
  average_results :: rat
  latency :: "(rat \<times> rat \<times> rat) option"
  top10 :: "(pykey \<times> nat) list"
  final_verdict :: verdict

text \<open>
  The summary, from the line \<open>Total searches\<close> to the final verdict. The
  percentages and times are taken as the rationals the floating-point numbers
  approximate.
\<close>

definition summary :: "stats \<Rightarrow> exn + report" where
  "summary st =
     (case py_div (successful_searches st) (total_searches st) of
        Inl e \<Rightarrow> Inl e
      | Inr successful \<Rightarrow>
          (case py_div (failed_searches st) (total_searches st) of
             Inl e \<Rightarrow> Inl e
           | Inr failed \<Rightarrow>
               (case (if suspended_engines st \<noteq> [] then sorted_items_raises (suspended_engines st)
                      else None) of
                  Some e \<Rightarrow> Inl e
                | None \<Rightarrow>
                    (case py_div (successful_searches st) (total_searches st) of
                       Inl e \<Rightarrow> Inl e
                     | Inr r \<Rightarrow>
                         let success_rate = r * 100
                         in Inr \<lparr>successful_pct = successful * 100,
                                 failed_pct = failed * 100,
                                 average_results =
                                   of_nat (total_results st) / of_nat (max (successful_searches st) 1),
                                 latency =
                                   (if response_times st \<noteq> [] then
                                      Some (sum_list (response_times st) / of_nat (length (response_times st)),
                                            Min (set (response_times st)),
                                            Max (set (response_times st)))
                                    else None),
                                 top10 = top_engines st,
                                 final_verdict =
                                   (if success_rate \<ge> 95 then Excellent
                                    else if success_rate \<ge> 80 then Good
                                    else Warning)\<rparr>))))"

text \<open>
  \<open>test_continuous_operation\<close>: the exception that leaves it, or the statistics it
  returns, together with the summary it has printed.
\<close>

definition test_continuous_operation ::
  "timed_backend \<Rightarrow> int \<Rightarrow> pynum \<Rightarrow> exn + (report \<times> stats)" where
  "test_continuous_operation backend num_searches delay =
     (case run_searches backend num_searches delay [0 ..< nat num_searches] initial_stats of
        (st, Some e) \<Rightarrow> Inl e
      | (st, None) \<Rightarrow>
          (case summary st of
             Inl e \<Rightarrow> Inl e
           | Inr rep \<Rightarrow> Inr (rep, st)))"


section \<open>Backends used as concrete inputs\<close>

text \<open>A backend whose every call times out.\<close>

definition timeout_backend :: timed_backend where
  "timeout_backend i q = (Raises Timeout, 0)"

text \<open>A backend that answers every call with status 200 and a body that is not JSON.\<close>

definition unparseable_backend :: timed_backend where
  "unparseable_backend i q =
     (Returns \<lparr>status_code = 200, body_text = ''<html>'', json_body = Inl JSONDecodeError\<rparr>,
      3 / 2)"

text \<open>
  A backend that answers every call with status 200 and the JSON body
  \<open>{"results": [{"engines": ["google"]}], "unresponsive_engines": null}\<close>.
\<close>

definition null_unresponsive_backend :: timed_backend where
  "null_unresponsive_backend i q =
     (Returns \<lparr>status_code = 200, body_text = [],
        json_body = Inr (JObj [(''results'', JArr [JObj [(''engines'', JArr [JStr ''google''])]]),
                               (''unresponsive_engines'', JNull)])\<rparr>, 1 / 2)"


text \<open>
  A reply with status 200 whose body is a hundred thousand opening brackets, on
  which \<open>response.json()\<close> raises \<open>RecursionError\<close>.
\<close>

definition deeply_nested_reply :: response where
  "deeply_nested_reply =
     \<lparr>status_code = 200, body_text = replicate 100000 CHR ''['',
      json_body = Inl RecursionError\<rparr>"

text \<open>A backend that answers call \<open>i\<close> with the \<open>i\<close>-th status of a list and the body \<open>{}\<close>.\<close>

definition status_backend :: "nat list \<Rightarrow> timed_backend" where
  "status_backend codes i q =
     (Returns \<lparr>status_code = codes ! i, body_text = [], json_body = Inr (JObj [])\<rparr>, 1)"

section \<open>Properties of the query normalisation\<close>

lemma strip_no_space_ends:
  assumes "s \<noteq> []" "\<not> isspace (hd s)" "\<not> isspace (last s)"
  shows "strip s = s"
proof -
  from assms obtain c cs where s: "s = c # cs" by (cases s) auto
  with assms have "dropWhile isspace s = s" by simp
  moreover from assms have "rev s \<noteq> []" "\<not> isspace (hd (rev s))"
    by (simp_all add: hd_rev)
  then have "dropWhile isspace (rev s) = rev s" by (cases "rev s") auto
  ultimately show ?thesis by (simp add: strip_def)
qed

lemma strip_ends:
  assumes "strip s \<noteq> []"
  shows "\<not> isspace (hd (strip s)) \<and> \<not> isspace (last (strip s))"
proof -
  let ?t = "dropWhile isspace (rev (dropWhile isspace s))"
  from assms have t: "?t \<noteq> []" by (simp add: strip_def)
  then have l: "\<not> isspace (hd ?t)" by (rule hd_dropWhile)
  have d: "dropWhile isspace s \<noteq> []"
  proof
    assume "dropWhile isspace s = []"
    then have "?t = []" by (simp only: rev.simps dropWhile.simps)
    with t show False by blast
  qed
  then have h: "\<not> isspace (hd (dropWhile isspace s))" by (rule hd_dropWhile)
  from t obtain x where "x \<in> set (rev (dropWhile isspace s))" "\<not> isspace x"
    by (auto simp only: dropWhile_eq_Nil_conv)
  then have "last ?t = last (rev (dropWhile isspace s))"
    by (rule dropWhile_last)
  then have "last ?t = hd (dropWhile isspace s)"
    using d by (simp add: last_rev)
  with h l t show ?thesis by (simp add: strip_def hd_rev last_rev)
qed

lemma strip_idem: "strip (strip s) = strip s"
proof (cases "strip s = []")
  case True
  have "strip [] = []" by (simp add: strip_def)
  with True show ?thesis by (simp only:)
next
  case False
  with strip_ends [OF False] show ?thesis by (simp add: strip_no_space_ends)
qed

lemma lower_append: "lower (xs @ ys) = lower xs @ lower ys"
  by (simp add: lower_def)

lemma lower_grant: "lower '' grant'' = '' grant''"
  by (simp add: lower_def lower_char_def)

lemma endswith_append_grant: "endswith (xs @ '' grant'') ''grant''"
  by (simp add: endswith_def)

text \<open>
  Normalising twice: on a query with something left after trimming, the second
  pass finds the term at the end, or finds what the first pass found.
\<close>

lemma clean_grant_name_twice:
  assumes "strip q \<noteq> []"
  shows "clean_grant_name (clean_grant_name q) = clean_grant_name q"
proof -
  let ?s = "strip q"
  from strip_ends [OF assms] have e: "\<not> isspace (hd ?s)" "\<not> isspace (last ?s)" by simp_all
  show ?thesis
  proof (cases "endswith (lower ?s) ''grant'' \<or> contains '' grant '' (lower ?s)")
    case True
    then have "clean_grant_name q = ?s" by (simp add: clean_grant_name_def)
    moreover from True have "clean_grant_name ?s = ?s"
      by (simp add: clean_grant_name_def strip_idem)
    ultimately show ?thesis by simp
  next
    case False
    then have c: "clean_grant_name q = ?s @ '' grant''" by (simp add: clean_grant_name_def)
    have "\<not> isspace (hd (?s @ '' grant''))" using assms e by simp
    moreover have "\<not> isspace (last (?s @ '' grant''))" by (simp add: isspace_def)
    ultimately have "strip (?s @ '' grant'') = ?s @ '' grant''"
      by (intro strip_no_space_ends) simp_all
    then have "clean_grant_name (?s @ '' grant'') = ?s @ '' grant''"
      using endswith_append_grant [of "lower ?s"]
      by (simp add: clean_grant_name_def lower_append lower_grant)
    with c show ?thesis by simp
  qed
qed

text \<open>On a query that is empty after trimming the two passes differ.\<close>

lemma clean_grant_name_blank:
  assumes "strip q = []"
  shows "clean_grant_name q = '' grant'' \<and> clean_grant_name (clean_grant_name q) = ''grant''"
proof -
  from assms have "clean_grant_name q = '' grant''"
    by (simp add: clean_grant_name_def lower_def endswith_def)
  moreover have "clean_grant_name '' grant'' = ''grant''"
    by (simp add: clean_grant_name_def strip_def isspace_def lower_def lower_char_def endswith_def)
  ultimately show ?thesis by simp
qed

text \<open>What the normaliser tests, written out.\<close>

lemma clean_grant_name_cases:
  "clean_grant_name q =
     (if endswith (lower (strip q)) ''grant'' \<or> contains '' grant '' (lower (strip q))
      then strip q else strip q @ '' grant'')"
  by (simp add: clean_grant_name_def)

text \<open>
  C6. The claim: a query whose trimmed, lowercased text ends with \<open>grant\<close> or
  contains \<open>grant\<close> as a standalone word comes back trimmed and unchanged. The
  query \<open>grant money\<close> has the word \<open>grant\<close> standing alone at its start, and
  \<open>clean_grant_name\<close> appends the term a second time: the test for the word looks
  for it between two spaces only.
\<close>

theorem clean_grant_name_leading_word:
  "standalone_word ''grant'' (lower (strip ''grant money'')) \<and>
   clean_grant_name ''grant money'' = ''grant money grant''"
  by (simp add: standalone_word_def clean_grant_name_def strip_def isspace_def lower_def
      lower_char_def endswith_def)

text \<open>
  C7, as stated: normalising twice gives what normalising once gives, for every
  query. It fails on the empty query: the first pass gives \<open>grant\<close> after a space,
  the second pass trims that space.
\<close>

theorem clean_grant_name_not_idempotent:
  "clean_grant_name (clean_grant_name []) \<noteq> clean_grant_name []"
  by (simp add: clean_grant_name_def strip_def isspace_def lower_def lower_char_def endswith_def)

text \<open>
  C7, amended: for every query that is not empty after trimming, normalising
  twice gives what normalising once gives. (The batch run skips the rows whose
  name is empty after trimming before it normalises.)
\<close>

theorem clean_grant_name_idempotent:
  "strip q \<noteq> [] \<Longrightarrow> clean_grant_name (clean_grant_name q) = clean_grant_name q"
  by (rule clean_grant_name_twice)

theorem clean_grant_name_idempotent_witness:
  "strip '' NSF Career '' \<noteq> [] \<and>
   clean_grant_name (clean_grant_name '' NSF Career '') = clean_grant_name '' NSF Career '' \<and>
   clean_grant_name '' NSF Career '' = ''NSF Career grant''"
proof -
  have h: "strip '' NSF Career '' \<noteq> []" by (simp add: strip_def isspace_def)
  have "clean_grant_name '' NSF Career '' = ''NSF Career grant''"
    by (simp add: clean_grant_name_def strip_def isspace_def lower_def lower_char_def endswith_def)
  with h clean_grant_name_idempotent [OF h] show ?thesis by simp
qed

section \<open>Properties of the batch run\<close>

lemma dict_get_exn: "dict_get d k v = Inl e \<Longrightarrow> e = AttributeError"
  by (cases d) auto

lemma py_iter_exn: "py_iter v = Inl e \<Longrightarrow> e = TypeError"
  by (cases v) auto

lemma py_len_exn: "py_len v = Inl e \<Longrightarrow> e = TypeError"
  by (cases v) auto

lemma item_links_exn: "item_links items = Inl e \<Longrightarrow> e = AttributeError"
  by (induction items) (auto split: sum.splits dest: dict_get_exn)

lemma search_grant_google_error:
  assumes "(\<exists>e. out = Raises e \<and> is_Exception e) \<or>
           (\<exists>r. out = Returns r \<and>
              (status_code r \<noteq> 200 \<or> (\<exists>e. json_body r = Inl e \<and> is_Exception e)))"
  shows "search_grant_google out = Inr []"
  using assms
  by (auto simp add: search_grant_google_def try_search_grant_google_def response_json_def)

text \<open>
  The only exception that leaves \<open>search_grant_google\<close> is the interrupt of the
  call or of the parsing.
\<close>

lemma try_search_grant_google_exn:
  assumes "try_search_grant_google out = Inl e"
  shows "is_Exception e \<or> interrupted out"
proof (cases out)
  case (Raises e')
  with assms show ?thesis
    by (simp add: try_search_grant_google_def interrupted_def is_Exception_def)
next
  case (Returns r)
  with assms show ?thesis
    by (auto simp add: try_search_grant_google_def response_json_def interrupted_def
        is_Exception_def split: if_splits sum.splits
        dest: dict_get_exn py_iter_exn item_links_exn)
qed

lemma search_grant_google_returns:
  assumes "\<not> interrupted out"
  shows "\<exists>links. search_grant_google out = Inr links"
proof (cases "try_search_grant_google out")
  case (Inl e)
  with assms try_search_grant_google_exn [OF Inl] show ?thesis
    by (simp add: search_grant_google_def)
next
  case (Inr links)
  then show ?thesis by (simp add: search_grant_google_def)
qed

lemma process_row_no_links:
  assumes "row_grant_name row = Inr grant_name"
    and "grant_name \<noteq> []" and "lower grant_name \<noteq> ''grant_name''"
    and "search_grant_google (backend (query_count s) (clean_grant_name grant_name)) = Inr []"
  shows "process_row backend row s =
           (s\<lparr>query_count := query_count s + 1,
              out_csv := out_csv s @ [[JStr grant_name, JStr (clean_grant_name grant_name), JStr []]]\<rparr>,
            None)"
  using assms by (simp add: process_row_def)

text \<open>
  C1. Take a row that is not skipped (its name is there, is not empty after
  trimming and is not the column header) and let the call made for it end in an
  error (an exception raised by the call, a status other than 200, an exception
  raised when the body is parsed) or give no links. Then the loop body appends
  exactly one row to the best-result file, with the empty string as its link,
  appends nothing to the other file, raises nothing, and the run goes on with the
  rows that follow.
\<close>

theorem best_row_on_error:
  assumes "row_grant_name row = Inr grant_name"
    and "grant_name \<noteq> []" and "lower grant_name \<noteq> ''grant_name''"
    and "out = backend (query_count s) (clean_grant_name grant_name)"
    and "(\<exists>e. out = Raises e \<and> is_Exception e) \<or>
         (\<exists>r. out = Returns r \<and>
            (status_code r \<noteq> 200 \<or> (\<exists>e. json_body r = Inl e \<and> is_Exception e))) \<or>
         search_grant_google out = Inr []"
    and "s' = s\<lparr>query_count := query_count s + 1,
                 out_csv := out_csv s @ [[JStr grant_name, JStr (clean_grant_name grant_name), JStr []]]\<rparr>"
  shows "process_row backend row s = (s', None) \<and>
         out_csv_full s' = out_csv_full s \<and>
         process_rows backend (row # rows) s = process_rows backend rows s'"
proof -
  from assms(5) have "search_grant_google out = Inr []"
    using search_grant_google_error [of out] by blast
  with assms have "process_row backend row s = (s', None)"
    by (simp add: process_row_no_links)
  with assms(6) show ?thesis by simp
qed

theorem best_row_on_error_witness:
  "process_rows (\<lambda>k q. Raises Timeout)
     [[(''grant_name'', Some ''NSF'')], [(''grant_name'', Some ''DOE'')]]
     \<lparr>out_csv = [header], out_csv_full = [header], query_count = 0\<rparr>
   = (\<lparr>out_csv = [header, [JStr ''NSF'', JStr ''NSF grant'', JStr []],
                     [JStr ''DOE'', JStr ''DOE grant'', JStr []]],
        out_csv_full = [header], query_count = 2\<rparr>, None)"
proof -
  let ?b = "\<lambda>(k::nat) (q::string). Raises Timeout"
  let ?s0 = "\<lparr>out_csv = [header], out_csv_full = [header], query_count = 0\<rparr>"
  let ?s1 = "\<lparr>out_csv = [header, [JStr ''NSF'', JStr ''NSF grant'', JStr []]],
              out_csv_full = [header], query_count = 1\<rparr>"
  let ?s2 = "\<lparr>out_csv = [header, [JStr ''NSF'', JStr ''NSF grant'', JStr []],
                     [JStr ''DOE'', JStr ''DOE grant'', JStr []]],
        out_csv_full = [header], query_count = 2\<rparr>"
  have c1: "clean_grant_name ''NSF'' = ''NSF grant''"
    by (simp add: clean_grant_name_def strip_def isspace_def lower_def lower_char_def endswith_def)
  have c2: "clean_grant_name ''DOE'' = ''DOE grant''"
    by (simp add: clean_grant_name_def strip_def isspace_def lower_def lower_char_def endswith_def)
  have r1: "row_grant_name [(''grant_name'', Some ''NSF'')] = Inr ''NSF''"
    by (simp add: row_grant_name_def strip_def isspace_def)
  have r2: "row_grant_name [(''grant_name'', Some ''DOE'')] = Inr ''DOE''"
    by (simp add: row_grant_name_def strip_def isspace_def)
  have l1: "lower ''NSF'' \<noteq> ''grant_name''" "lower ''DOE'' \<noteq> ''grant_name''"
    by (simp_all add: lower_def)
  have e: "(\<exists>e. Raises Timeout = Raises e \<and> is_Exception e) \<or>
         (\<exists>r. Raises Timeout = Returns r \<and>
            (status_code r \<noteq> 200 \<or> (\<exists>e. json_body r = Inl e \<and> is_Exception e))) \<or>
         search_grant_google (Raises Timeout) = Inr []"
    by (simp add: is_Exception_def)
  have "process_rows ?b [[(''grant_name'', Some ''NSF'')], [(''grant_name'', Some ''DOE'')]] ?s0
        = process_rows ?b [[(''grant_name'', Some ''DOE'')]] ?s1"
    using best_row_on_error [of "[(''grant_name'', Some ''NSF'')]" "''NSF''" "Raises Timeout" ?b ?s0 ?s1
        "[[(''grant_name'', Some ''DOE'')]]", OF r1 _ l1(1) _ e]
    by (simp add: c1)
  also have "\<dots> = process_rows ?b [] ?s2"
    using best_row_on_error [of "[(''grant_name'', Some ''DOE'')]" "''DOE''" "Raises Timeout" ?b ?s1 ?s2
        "[]", OF r2 _ l1(2) _ e]
    by (simp add: c2)
  finally show ?thesis by simp
qed

text \<open>
  C4. The claim: when the input file does not exist the run ends before any output
  and the process exits with status 1. With both credentials set and no input
  file, \<open>main\<close> returns before it opens an output file, and the script then
  runs to its end: the status is 0. The check of the credentials, in the same
  script, does end the process with status 1.
\<close>

theorem missing_input_exits_zero:
  "main None backend = (None, None) \<and>
   grant_script (Some ''key'') (Some ''cx'') None backend = (None, 0) \<and>
   grant_script None (Some ''cx'') input backend = (None, 1)"
  by (simp add: grant_script_def main_def exit_status_def)

section \<open>Properties of the statistics run\<close>

text \<open>
  A counter keeps its keys in the order in which they were first counted: counting
  a key that is there changes no position, counting a new key puts it last.
\<close>

lemma incr_keys:
  "map fst (incr k c) = (if k \<in> set (map fst c) then map fst c else map fst c @ [k])"
proof -
  have "map fst (map (\<lambda>(k', n). if k' = k then (k', n + 1) else (k', n)) c) = map fst c"
    by (induction c) auto
  then show ?thesis by (simp add: incr_def)
qed

lemma incr_distinct: "distinct (map fst c) \<Longrightarrow> distinct (map fst (incr k c))"
  by (simp add: incr_keys)

lemma count_engines_exn: "count_engines es acc = (acc', Some e) \<Longrightarrow> e = TypeError"
  by (induction es acc rule: count_engines.induct) (auto split: option.splits)

lemma track_results_exn:
  "track_results rs acc = (acc', Some e) \<Longrightarrow> e = AttributeError \<or> e = TypeError"
  by (induction rs acc rule: track_results.induct)
    (auto split: sum.splits option.splits prod.splits
      dest: dict_get_exn py_iter_exn count_engines_exn)

lemma track_suspended_exn: "track_suspended us c = (c', Some e) \<Longrightarrow> e = TypeError"
  by (induction us c rule: track_suspended.induct)
    (auto split: json.splits list.splits option.splits)

lemma track_unresponsive_fields:
  assumes "track_unresponsive data seen st = (st', r)"
  shows "total_searches st' = total_searches st \<and> successful_searches st' = successful_searches st \<and>
         failed_searches st' = failed_searches st \<and> response_times st' = response_times st \<and>
         total_results st' = total_results st \<and> engines_used st' = engines_used st"
  using assms
  by (auto simp add: track_unresponsive_def Let_def split: sum.splits prod.splits option.splits if_splits)

lemma track_unresponsive_exn:
  assumes "track_unresponsive data seen st = (st', Some e)"
  shows "e = AttributeError \<or> e = TypeError"
  using assms
  by (auto simp add: track_unresponsive_def Let_def split: sum.splits prod.splits option.splits if_splits
      dest: dict_get_exn py_iter_exn track_suspended_exn)

lemma on_status_200_fields:
  assumes "on_status_200 data st = (st', r)"
  shows "total_searches st' = total_searches st \<and> failed_searches st' = failed_searches st \<and>
         response_times st' = response_times st \<and>
         (successful_searches st' = successful_searches st \<or>
          successful_searches st' = successful_searches st + 1)"
  using assms
  by (auto simp add: on_status_200_def Let_def split: sum.splits prod.splits option.splits
      dest!: track_unresponsive_fields)

lemma on_status_200_exn:
  assumes "on_status_200 data st = (st', Some e)"
  shows "e = AttributeError \<or> e = TypeError"
  using assms
  by (auto simp add: on_status_200_def Let_def split: sum.splits prod.splits option.splits
      dest: dict_get_exn py_iter_exn py_len_exn track_results_exn track_unresponsive_exn)

lemma on_status_200_None:
  assumes "on_status_200 data st = (st', None)"
  shows "successful_searches st' = successful_searches st + 1"
  using assms
  by (auto simp add: on_status_200_def Let_def split: sum.splits prod.splits option.splits
      dest!: track_unresponsive_fields)

lemma try_search_raises:
  "try_search (Raises e, elapsed) st = (st, Some e)"
  by (simp add: try_search_def)

lemma try_search_not_200:
  assumes "status_code response \<noteq> 200"
  shows "try_search (Returns response, elapsed) st =
           (st\<lparr>response_times := response_times st @ [elapsed],
               failed_searches := failed_searches st + 1\<rparr>, None)"
  using assms by (simp add: try_search_def)

lemma try_search_json_raises:
  assumes "status_code response = 200" and "json_body response = Inl e"
  shows "try_search (Returns response, elapsed) st =
           (st\<lparr>response_times := response_times st @ [elapsed]\<rparr>, Some e)"
  using assms by (simp add: try_search_def response_json_def)

lemma try_search_parsed:
  assumes "status_code response = 200" and "json_body response = Inr data"
  shows "try_search (Returns response, elapsed) st =
           on_status_200 data (st\<lparr>response_times := response_times st @ [elapsed]\<rparr>)"
  using assms by (simp add: try_search_def response_json_def)

text \<open>
  What the \<open>try\<close> of one iteration does to the counters and the samples, by the
  way it ends.
\<close>

lemma try_search_returns:
  assumes "try_search (Returns response, elapsed) st = (st', r)"
  shows "response_times st' = response_times st @ [elapsed] \<and>
         total_searches st' = total_searches st \<and>
         (\<forall>e. r = Some e \<longrightarrow> failed_searches st' = failed_searches st \<and>
            (is_Exception e \<or> interrupted (Returns response)))"
proof (cases "status_code response = 200")
  case False
  with assms show ?thesis by (auto simp add: try_search_not_200)
next
  case True
  show ?thesis
  proof (cases "json_body response")
    case (Inl e)
    with True assms show ?thesis
      by (auto simp add: try_search_json_raises interrupted_def is_Exception_def)
  next
    case (Inr data)
    with True assms
    have o: "on_status_200 data (st\<lparr>response_times := response_times st @ [elapsed]\<rparr>) = (st', r)"
      by (simp add: try_search_parsed)
    from on_status_200_fields [OF o] have f: "response_times st' = response_times st @ [elapsed]"
      "total_searches st' = total_searches st" "failed_searches st' = failed_searches st"
      by simp_all
    have "is_Exception e" if "r = Some e" for e
      using on_status_200_exn [of data _ st' e] o that by (auto simp add: is_Exception_def)
    with f show ?thesis by simp
  qed
qed

lemma try_search_counters:
  assumes "try_search call st = (st', r)"
  shows "(r = None \<longrightarrow>
            successful_searches st' + failed_searches st' =
              successful_searches st + failed_searches st + 1) \<and>
         (r \<noteq> None \<longrightarrow> failed_searches st' = failed_searches st \<and>
            (successful_searches st' = successful_searches st \<or>
             successful_searches st' = successful_searches st + 1))"
proof (cases call)
  case (Pair out elapsed)
  show ?thesis
  proof (cases out)
    case (Raises e)
    with Pair assms show ?thesis by (auto simp add: try_search_def)
  next
    case (Returns response)
    show ?thesis
    proof (cases "status_code response = 200")
      case False
      with Pair Returns assms show ?thesis by (auto simp add: try_search_not_200)
    next
      case True
      show ?thesis
      proof (cases "json_body response")
        case (Inl e)
        with True Pair Returns assms show ?thesis by (auto simp add: try_search_json_raises)
      next
        case (Inr data)
        with True Pair Returns assms
        have o: "on_status_200 data (st\<lparr>response_times := response_times st @ [elapsed]\<rparr>) = (st', r)"
          by (simp add: try_search_parsed)
        show ?thesis
        proof (cases r)
          case None
          with o have "on_status_200 data (st\<lparr>response_times := response_times st @ [elapsed]\<rparr>) =
              (st', None)" by simp
          from on_status_200_None [OF this] on_status_200_fields [OF o] None
          show ?thesis by simp
        next
          case (Some e)
          with on_status_200_fields [OF o] show ?thesis by simp
        qed
      qed
    qed
  qed
qed

text \<open>One iteration, in terms of its \<open>try\<close>.\<close>

lemma search_once_try:
  assumes "try_search (backend i (queries ! (i mod length queries)))
             (st\<lparr>total_searches := total_searches st + 1\<rparr>) = (st1, r1)"
  shows "search_once backend i st =
           (case r1 of
              None \<Rightarrow> (st1, None)
            | Some e \<Rightarrow>
                if is_Exception e then (st1\<lparr>failed_searches := failed_searches st1 + 1\<rparr>, None)
                else (st1, Some e))"
  using assms
  by (auto simp add: search_once_def Let_def is_Exception_def split: option.splits)


lemma search_once_exn:
  assumes "search_once backend i st = (st', Some e)"
  shows "e = KeyboardInterrupt \<and> interrupted (fst (backend i (queries ! (i mod length queries))))"
proof -
  let ?st = "st\<lparr>total_searches := total_searches st + 1\<rparr>"
  let ?call = "backend i (queries ! (i mod length queries))"
  obtain st1 r1 where t: "try_search ?call ?st = (st1, r1)"
    by (cases "try_search ?call ?st")
  from assms search_once_try [of backend i st st1 r1, OF t] have r1: "r1 = Some e" and e: "\<not> is_Exception e"
    by (auto split: option.splits if_splits)
  from e have k: "e = KeyboardInterrupt" by (simp add: is_Exception_def)
  have "interrupted (fst ?call)"
  proof (cases ?call)
    case (Pair out elapsed)
    show ?thesis
    proof (cases out)
      case (Raises e')
      with Pair t r1 k show ?thesis by (auto simp add: try_search_raises interrupted_def)
    next
      case (Returns response)
      with Pair t r1 e try_search_returns [of response elapsed ?st st1 r1] show ?thesis by auto
    qed
  qed
  with k show ?thesis by simp
qed

lemma search_once_counters:
  assumes "search_once backend i st = (st', None)"
  shows "successful_searches st' + failed_searches st' =
           successful_searches st + failed_searches st + 1 \<or>
         (successful_searches st' = successful_searches st + 1 \<and>
          failed_searches st' = failed_searches st + 1)"
proof -
  let ?st = "st\<lparr>total_searches := total_searches st + 1\<rparr>"
  obtain st1 r1 where t: "try_search (backend i (queries ! (i mod length queries))) ?st = (st1, r1)"
    by (cases "try_search (backend i (queries ! (i mod length queries))) ?st")
  from try_search_counters [OF t] search_once_try [of backend i st st1 r1, OF t] assms show ?thesis
    by (auto split: option.splits if_splits)
qed
















text \<open>
  C2, as stated: no malformed response raises out of a client. The reply with
  status 200 and a hundred thousand opening brackets makes \<open>response.json()\<close>
  raise \<open>RecursionError\<close>, which is not a \<open>RequestException\<close>: it leaves
  \<open>SearXNGClient.search\<close>.
\<close>

theorem deeply_nested_reply_raises_out_of_search:
  "search (Returns deeply_nested_reply) None = Inl RecursionError"
  by (simp add: search_def raise_for_status_def response_json_def deeply_nested_reply_def)

text \<open>
  C2, amended: for every response of the backend, whatever its status and its
  body, unless the user interrupts its parsing: \<open>search_grant_google\<close> returns a
  list of links without raising, the empty list when the status is not 200 or
  when \<open>response.json()\<close> raises; one iteration of the statistics run ends without
  raising, and it counts one failure when \<open>response.json()\<close> raises on a reply
  with status 200; \<open>SearXNGClient.search\<close> returns its error result when the
  status is an HTTP error and, asked for JSON, when \<open>response.json()\<close> raises a
  \<open>RequestException\<close>, as it does on a body that is not JSON; it returns the
  parsed body, whatever its shape, when the body parses, and the text of the body
  when another format is asked for.
\<close>

theorem malformed_response_recovered:
  assumes "\<not> interrupted (Returns r)"
    and "backend i (queries ! (i mod length queries)) = (Returns r, elapsed)"
  shows "(\<exists>links. search_grant_google (Returns r) = Inr links) \<and>
         (status_code r \<noteq> 200 \<or> (\<exists>e. json_body r = Inl e) \<longrightarrow>
            search_grant_google (Returns r) = Inr []) \<and>
         (\<exists>st'. search_once backend i st = (st', None)) \<and>
         (status_code r = 200 \<and> (\<exists>e. json_body r = Inl e) \<longrightarrow>
            search_once backend i st =
              (st\<lparr>total_searches := total_searches st + 1,
                  response_times := response_times st @ [elapsed],
                  failed_searches := failed_searches st + 1\<rparr>, None)) \<and>
         (raise_for_status r = Some HTTPError \<longrightarrow>
            search (Returns r) format_kw = Inr (Error HTTPError)) \<and>
         (\<forall>e. raise_for_status r = None \<and> json_body r = Inl e \<and> is_RequestException e \<longrightarrow>
            search (Returns r) None = Inr (Error e) \<and>
            search (Returns r) (Some ''json'') = Inr (Error e)) \<and>
         (\<forall>data. raise_for_status r = None \<and> json_body r = Inr data \<longrightarrow>
            search (Returns r) None = Inr (Parsed data) \<and>
            search (Returns r) (Some ''json'') = Inr (Parsed data)) \<and>
         (\<forall>f. raise_for_status r = None \<and> f \<noteq> ''json'' \<longrightarrow>
            search (Returns r) (Some f) = Inr (Html (body_text r)))"
proof -
  have a: "\<exists>links. search_grant_google (Returns r) = Inr links"
    using assms(1) by (rule search_grant_google_returns)
  have b: "search_grant_google (Returns r) = Inr []"
    if "status_code r \<noteq> 200 \<or> (\<exists>e. json_body r = Inl e)"
  proof (cases "status_code r = 200")
    case False
    then show ?thesis by (simp add: search_grant_google_error)
  next
    case True
    with that obtain e where e: "json_body r = Inl e" by blast
    with True assms(1) have "is_Exception e" by (auto simp add: interrupted_def is_Exception_def)
    with e show ?thesis by (simp add: search_grant_google_error)
  qed
  have c: "\<exists>st'. search_once backend i st = (st', None)"
  proof (cases "search_once backend i st")
    case (Pair st' r')
    show ?thesis
    proof (cases r')
      case None
      with Pair show ?thesis by simp
    next
      case (Some e)
      with Pair search_once_exn [of backend i st st' e] assms show ?thesis by simp
    qed
  qed
  have d: "search_once backend i st =
              (st\<lparr>total_searches := total_searches st + 1,
                  response_times := response_times st @ [elapsed],
                  failed_searches := failed_searches st + 1\<rparr>, None)"
    if "status_code r = 200 \<and> (\<exists>e. json_body r = Inl e)"
  proof -
    from that obtain e where e: "json_body r = Inl e" by blast
    with that assms(1) have "is_Exception e" by (auto simp add: interrupted_def is_Exception_def)
    with that e assms(2) show ?thesis
      by (simp add: search_once_def try_search_json_raises is_Exception_def)
  qed
  have e: "search (Returns r) format_kw = Inr (Error HTTPError)"
    if "raise_for_status r = Some HTTPError"
    using that by (simp add: search_def)
  have f: "search (Returns r) None = Inr (Error e) \<and>
           search (Returns r) (Some ''json'') = Inr (Error e)"
    if "raise_for_status r = None \<and> json_body r = Inl e \<and> is_RequestException e" for e
    using that by (simp add: search_def response_json_def)
  have g: "search (Returns r) None = Inr (Parsed data) \<and>
           search (Returns r) (Some ''json'') = Inr (Parsed data)"
    if "raise_for_status r = None \<and> json_body r = Inr data" for data
    using that by (simp add: search_def response_json_def)
  have h: "search (Returns r) (Some f) = Inr (Html (body_text r))"
    if "raise_for_status r = None \<and> f \<noteq> ''json''" for f
    using that by (simp add: search_def)
  from a b c d e f g h show ?thesis by blast
qed

theorem malformed_response_recovered_witness:
  "search (Returns \<lparr>status_code = 200, body_text = ''<html>'', json_body = Inl JSONDecodeError\<rparr>) None
     = Inr (Error JSONDecodeError) \<and>
   search_grant_google
     (Returns \<lparr>status_code = 200, body_text = ''<html>'', json_body = Inl JSONDecodeError\<rparr>)
     = Inr [] \<and>
   search_once unparseable_backend 0 initial_stats =
     (\<lparr>total_searches = 1, successful_searches = 0, failed_searches = 1, total_results = 0,
        engines_used = [], suspended_engines = [], response_times = [3 / 2]\<rparr>, None) \<and>
   search (Returns \<lparr>status_code = 500, body_text = ''oops'', json_body = Inl JSONDecodeError\<rparr>)
     (Some ''html'') = Inr (Error HTTPError) \<and>
   search (Returns \<lparr>status_code = 200, body_text = ''[]'', json_body = Inr (JArr [])\<rparr>) None
     = Inr (Parsed (JArr [])) \<and>
   search (Returns \<lparr>status_code = 200, body_text = ''[]'', json_body = Inr (JArr [])\<rparr>)
     (Some ''csv'') = Inr (Html ''[]'')"
proof -
  let ?r = "\<lparr>status_code = 200, body_text = ''<html>'', json_body = Inl JSONDecodeError\<rparr>"
  let ?q = "\<lparr>status_code = 500, body_text = ''oops'', json_body = Inl JSONDecodeError\<rparr>"
  have h: "\<not> interrupted (Returns ?r)"
    "unparseable_backend 0 (queries ! (0 mod length queries)) = (Returns ?r, 3 / 2)"
    by (simp_all add: unparseable_backend_def interrupted_def)
  have g: "\<not> interrupted (Returns ?q)"
    "(\<lambda>i q. (Returns ?q, 0)) 0 (queries ! (0 mod length queries)) = (Returns ?q, 0)"
    by (simp_all add: interrupted_def)
  have j: "status_code ?r = 200 \<and> (\<exists>e. json_body ?r = Inl e)"
    "raise_for_status ?r = None \<and> json_body ?r = Inl JSONDecodeError \<and>
     is_RequestException JSONDecodeError"
    "raise_for_status ?q = Some HTTPError"
    by (simp_all add: raise_for_status_def)
  from malformed_response_recovered [where st = initial_stats and backend = unparseable_backend
      and i = 0 and r = ?r and elapsed = "3 / 2", OF h] j(1,2)
  have "search (Returns ?r) None = Inr (Error JSONDecodeError) \<and>
        search_grant_google (Returns ?r) = Inr [] \<and>
        search_once unparseable_backend 0 initial_stats =
          (initial_stats\<lparr>total_searches := total_searches initial_stats + 1,
              response_times := response_times initial_stats @ [3 / 2],
              failed_searches := failed_searches initial_stats + 1\<rparr>, None)"
    by blast
  moreover
  from malformed_response_recovered [where st = initial_stats and backend = "\<lambda>i q. (Returns ?q, 0)"
      and i = 0 and r = ?q and elapsed = 0 and format_kw = "Some ''html''", OF g] j(3)
  have "search (Returns ?q) (Some ''html'') = Inr (Error HTTPError)" by blast
  moreover
  let ?p = "\<lparr>status_code = 200, body_text = ''[]'', json_body = Inr (JArr [])\<rparr>"
  have k: "\<not> interrupted (Returns ?p)"
    "(\<lambda>i q. (Returns ?p, 0)) 0 (queries ! (0 mod length queries)) = (Returns ?p, 0)"
    by (simp_all add: interrupted_def)
  have l: "raise_for_status ?p = None \<and> json_body ?p = Inr (JArr [])"
    "raise_for_status ?p = None \<and> ''csv'' \<noteq> ''json''"
    by (simp_all add: raise_for_status_def)
  note m = malformed_response_recovered [where st = initial_stats
      and backend = "\<lambda>i q. (Returns ?p, 0)" and i = 0 and r = ?p and elapsed = 0, OF k]
  from m l(1) have "search (Returns ?p) None = Inr (Parsed (JArr []))"
    by (elim conjE allE [where x = "JArr []"]) simp
  moreover from m l(2) have "search (Returns ?p) (Some ''csv'') = Inr (Html (body_text ?p))"
    by (elim conjE allE [where x = "''csv''"]) simp
  ultimately show ?thesis by (simp add: initial_stats_def)
qed

text \<open>
  C5, as stated: an item that ends in an exception, an unparseable body on a reply
  with status 200 included, counts a failure and records no latency sample, the
  samples being recorded on success only. On such a reply the iteration counts
  the failure and has recorded the sample already: the sample is stored as soon
  as the call returns.
\<close>

theorem latency_recorded_on_unparseable_body:
  "unparseable_backend 0 (queries ! (0 mod length queries)) =
     (Returns \<lparr>status_code = 200, body_text = ''<html>'', json_body = Inl JSONDecodeError\<rparr>,
      3 / 2) \<and>
   search_once unparseable_backend 0 initial_stats =
     (\<lparr>total_searches = 1, successful_searches = 0, failed_searches = 1, total_results = 0,
        engines_used = [], suspended_engines = [], response_times = [3 / 2]\<rparr>, None) \<and>
   response_times (fst (search_once unparseable_backend 0 initial_stats)) \<noteq>
     response_times initial_stats"
  by (simp add: search_once_def unparseable_backend_def initial_stats_def try_search_def
      response_json_def is_Exception_def queries_def)

text \<open>
  C5, amended: for every item whose backend call ends in a timeout or any other
  exception (one raised by the call, one raised by \<open>response.json()\<close> on a reply
  with status 200, one raised while the parsed reply is gone through), the
  failure counter is incremented by one and the iteration ends. The success
  counter is not incremented when the call or \<open>response.json()\<close> raises. No latency
  sample is recorded when the call itself raises; exactly one is recorded as soon
  as the call returns a response, whatever its status and its body, so not on
  success only. A reply with another status than 200 counts one failure and no
  success; a reply with status 200 gone through without an exception counts one
  success and no failure.
\<close>

theorem latency_sample_per_response:
  assumes "backend i (queries ! (i mod length queries)) = (out, elapsed)"
    and "try_search (out, elapsed) (st\<lparr>total_searches := total_searches st + 1\<rparr>) = (st1, r1)"
    and "search_once backend i st = (st', r)"
  shows "(\<forall>e. r1 = Some e \<and> is_Exception e \<longrightarrow>
            failed_searches st' = failed_searches st + 1 \<and> r = None) \<and>
         (\<forall>e. out = Raises e \<longrightarrow>
            r1 = Some e \<and> successful_searches st' = successful_searches st \<and>
            response_times st' = response_times st) \<and>
         (\<forall>response e. out = Returns response \<and> status_code response = 200 \<and>
              json_body response = Inl e \<longrightarrow>
            r1 = Some e \<and> successful_searches st' = successful_searches st) \<and>
         (\<forall>response. out = Returns response \<and> status_code response \<noteq> 200 \<longrightarrow>
            failed_searches st' = failed_searches st + 1 \<and>
            successful_searches st' = successful_searches st \<and> r = None) \<and>
         (\<forall>response. out = Returns response \<longrightarrow>
            response_times st' = response_times st @ [elapsed]) \<and>
         (r1 = None \<and> (\<exists>response. out = Returns response \<and> status_code response = 200) \<longrightarrow>
            successful_searches st' = successful_searches st + 1 \<and>
            failed_searches st' = failed_searches st \<and> r = None)"
proof -
  let ?st = "st\<lparr>total_searches := total_searches st + 1\<rparr>"
  from assms(1,2) have t: "try_search (backend i (queries ! (i mod length queries))) ?st = (st1, r1)"
    by simp
  note once = search_once_try [of backend i st st1 r1, OF t]
  note counters = try_search_counters [OF assms(2)]
  have a: "failed_searches st' = failed_searches st + 1 \<and> r = None"
    if "r1 = Some e \<and> is_Exception e" for e
    using that once counters assms(3) by auto
  have b: "r1 = Some e \<and> successful_searches st' = successful_searches st \<and>
           response_times st' = response_times st"
    if "out = Raises e" for e
    using that once assms(2,3) by (auto simp add: try_search_raises split: if_splits)
  have c: "r1 = Some e \<and> successful_searches st' = successful_searches st"
    if "out = Returns response \<and> status_code response = 200 \<and> json_body response = Inl e"
    for response e
    using that once assms(2,3) by (auto simp add: try_search_json_raises split: if_splits)
  have d: "failed_searches st' = failed_searches st + 1 \<and>
           successful_searches st' = successful_searches st \<and> r = None"
    if "out = Returns response \<and> status_code response \<noteq> 200" for response
    using that once assms(2,3) by (auto simp add: try_search_not_200)
  have e: "response_times st' = response_times st @ [elapsed]"
    if "out = Returns response" for response
  proof -
    from that assms(2) try_search_returns [of response elapsed ?st st1 r1]
    have "response_times st1 = response_times st @ [elapsed]" by simp
    with once assms(3) show ?thesis by (auto split: option.splits if_splits)
  qed
  have f: "successful_searches st' = successful_searches st + 1 \<and>
           failed_searches st' = failed_searches st \<and> r = None"
    if "r1 = None \<and> (\<exists>response. out = Returns response \<and> status_code response = 200)"
  proof -
    from that obtain response where o: "out = Returns response" "status_code response = 200"
      by blast
    from that have n: "r1 = None" by simp
    from o n assms(2) obtain data where "json_body response = Inr data"
      by (cases "json_body response") (auto simp add: try_search_json_raises)
    with o n assms(2)
    have "on_status_200 data (?st\<lparr>response_times := response_times ?st @ [elapsed]\<rparr>) = (st1, None)"
      by (simp add: try_search_parsed)
    from on_status_200_None [OF this] on_status_200_fields [OF this]
    have "successful_searches st1 = successful_searches st + 1"
      "failed_searches st1 = failed_searches st" by simp_all
    with once n assms(3) show ?thesis by simp
  qed
  from a b c d e f show ?thesis by blast
qed

theorem latency_sample_per_response_witness:
  "search_once timeout_backend 0 initial_stats =
     (initial_stats\<lparr>total_searches := 1, failed_searches := 1\<rparr>, None) \<and>
   search_once unparseable_backend 0 initial_stats =
     (initial_stats\<lparr>total_searches := 1, failed_searches := 1, response_times := [3 / 2]\<rparr>, None) \<and>
   failed_searches (fst (search_once (status_backend [500]) 0 initial_stats)) = 1 \<and>
   successful_searches (fst (search_once (status_backend [500]) 0 initial_stats)) = 0 \<and>
   response_times (fst (search_once (status_backend [500]) 0 initial_stats)) = [1] \<and>
   failed_searches (fst (search_once (status_backend [200]) 0 initial_stats)) = 0 \<and>
   successful_searches (fst (search_once (status_backend [200]) 0 initial_stats)) = 1 \<and>
   response_times (fst (search_once (status_backend [200]) 0 initial_stats)) = [1]"
proof -
  let ?st = "initial_stats\<lparr>total_searches := total_searches initial_stats + 1\<rparr>"
  let ?u = "\<lparr>status_code = 200, body_text = ''<html>'', json_body = Inl JSONDecodeError\<rparr>"
  have t: "timeout_backend 0 (queries ! (0 mod length queries)) = (Raises Timeout, 0)"
    by (simp add: timeout_backend_def)
  have u: "unparseable_backend 0 (queries ! (0 mod length queries)) = (Returns ?u, 3 / 2)"
    by (simp add: unparseable_backend_def)
  have tt: "try_search (Raises Timeout, 0) ?st = (?st, Some Timeout)"
    by (simp add: try_search_raises)
  have tu: "try_search (Returns ?u, 3 / 2) ?st =
      (?st\<lparr>response_times := response_times ?st @ [3 / 2]\<rparr>, Some JSONDecodeError)"
    by (simp add: try_search_json_raises)
  have e: "is_Exception Timeout" "is_Exception JSONDecodeError"
    by (simp_all add: is_Exception_def)
  obtain st1 r1 where s1: "search_once timeout_backend 0 initial_stats = (st1, r1)"
    by (cases "search_once timeout_backend 0 initial_stats")
  obtain st2 r2 where s2: "search_once unparseable_backend 0 initial_stats = (st2, r2)"
    by (cases "search_once unparseable_backend 0 initial_stats")
  from latency_sample_per_response [OF t tt s1] e
  have "failed_searches st1 = 1 \<and> response_times st1 = [] \<and> r1 = None \<and>
      successful_searches st1 = 0"
    by (simp add: initial_stats_def)
  moreover from s1 have "st1 = fst (search_once timeout_backend 0 initial_stats)" by simp
  then have "total_searches st1 = 1 \<and> total_results st1 = 0 \<and>
      engines_used st1 = [] \<and> suspended_engines st1 = []"
    by (simp add: search_once_def timeout_backend_def try_search_def initial_stats_def queries_def)
  ultimately have a: "st1 = initial_stats\<lparr>total_searches := 1, failed_searches := 1\<rparr> \<and> r1 = None"
    by (cases st1) (simp add: initial_stats_def)
  from latency_sample_per_response [OF u tu s2] e
  have "failed_searches st2 = 1 \<and> response_times st2 = [3 / 2] \<and> r2 = None \<and>
      successful_searches st2 = 0"
    by (simp add: initial_stats_def)
  moreover from s2 have "st2 = fst (search_once unparseable_backend 0 initial_stats)" by simp
  then have "total_searches st2 = 1 \<and> total_results st2 = 0 \<and>
      engines_used st2 = [] \<and> suspended_engines st2 = []"
    by (simp add: search_once_def unparseable_backend_def try_search_def response_json_def
        initial_stats_def queries_def is_Exception_def Let_def)
  ultimately have b: "st2 = initial_stats\<lparr>total_searches := 1, failed_searches := 1,
      response_times := [3 / 2]\<rparr> \<and> r2 = None"
    by (cases st2) (simp add: initial_stats_def)
  let ?v = "\<lparr>status_code = 500, body_text = [], json_body = Inr (JObj [])\<rparr>"
  let ?w = "\<lparr>status_code = 200, body_text = [], json_body = Inr (JObj [])\<rparr>"
  have v: "status_backend [500] 0 (queries ! (0 mod length queries)) = (Returns ?v, 1)"
    by (simp add: status_backend_def)
  have w: "status_backend [200] 0 (queries ! (0 mod length queries)) = (Returns ?w, 1)"
    by (simp add: status_backend_def)
  have tv: "try_search (Returns ?v, 1) ?st =
      (?st\<lparr>response_times := response_times ?st @ [1],
           failed_searches := failed_searches ?st + 1\<rparr>, None)"
    by (simp add: try_search_not_200)
  have tw: "try_search (Returns ?w, 1) ?st =
      (?st\<lparr>response_times := response_times ?st @ [1],
           successful_searches := successful_searches ?st + 1\<rparr>, None)"
    by (simp add: try_search_def response_json_def on_status_200_def track_unresponsive_def)
  obtain st3 r3 where s3: "search_once (status_backend [500]) 0 initial_stats = (st3, r3)"
    by (cases "search_once (status_backend [500]) 0 initial_stats")
  obtain st4 r4 where s4: "search_once (status_backend [200]) 0 initial_stats = (st4, r4)"
    by (cases "search_once (status_backend [200]) 0 initial_stats")
  note m3 = latency_sample_per_response [OF v tv s3]
  note m4 = latency_sample_per_response [OF w tw s4]
  have c4: "failed_searches st3 = failed_searches initial_stats + 1 \<and>
      successful_searches st3 = successful_searches initial_stats \<and> r3 = None"
    using m3 by (elim conjE allE [where x = ?v]) simp
  have c5: "response_times st3 = response_times initial_stats @ [1]"
    using m3 by (elim conjE allE [where x = ?v]) simp
  have d5: "response_times st4 = response_times initial_stats @ [1]"
    using m4 by (elim conjE allE [where x = ?w]) simp
  have "\<exists>response. Returns ?w = Returns response \<and> status_code response = 200"
    by (intro exI [where x = ?w]) simp
  with m4 have d6: "successful_searches st4 = successful_searches initial_stats + 1 \<and>
      failed_searches st4 = failed_searches initial_stats \<and> r4 = None"
    by (elim conjE) simp
  from c4 c5 d5 d6 s3 s4 have "failed_searches st3 = 1 \<and> successful_searches st3 = 0 \<and>
      response_times st3 = [1] \<and> failed_searches st4 = 0 \<and> successful_searches st4 = 1 \<and>
      response_times st4 = [1]"
    by (simp add: initial_stats_def)
  with a b s1 s2 s3 s4 show ?thesis by simp
qed

text \<open>
  C9. The claim: after every iteration the searches counted are the successes plus
  the failures, an item counting as one of the two and never as both. A reply with
  status 200 whose JSON body has \<open>null\<close> for \<open>unresponsive_engines\<close> is counted as
  a success when its results are read, and as a failure when the loop over
  \<open>unresponsive_engines\<close> raises: one search, one success and one failure.
\<close>

theorem success_and_failure_both_counted:
  "search_once null_unresponsive_backend 0 initial_stats =
     (\<lparr>total_searches = 1, successful_searches = 1, failed_searches = 1, total_results = 1,
        engines_used = [(KStr ''google'', 1)], suspended_engines = [],
        response_times = [1 / 2]\<rparr>, None)"
  by (simp add: search_once_def null_unresponsive_backend_def initial_stats_def try_search_def
      response_json_def is_Exception_def queries_def on_status_200_def track_unresponsive_def
      incr_def)




text \<open>
  C10. The summary is reached without an exception only when at least one search
  is made: with \<open>num_searches\<close> below 1 the loop does nothing and the first
  percentage divides by zero. The other two divisions are guarded: with a search
  counted, no success and no latency sample, the summary is computed, the average
  number of results dividing by 1 and the latency figures being left out.
\<close>

theorem summary_needs_a_search:
  "(num_searches < 1 \<longrightarrow>
      test_continuous_operation backend num_searches delay = Inl ZeroDivisionError) \<and>
   (\<forall>rep st. test_continuous_operation backend num_searches delay = Inr (rep, st) \<longrightarrow>
      1 \<le> num_searches) \<and>
   (total_searches s \<noteq> 0 \<and> successful_searches s = 0 \<and> response_times s = [] \<and>
    suspended_engines s = [] \<longrightarrow>
      (\<exists>rep. summary s = Inr rep \<and> latency rep = None \<and>
             average_results rep = of_nat (total_results s)))"
proof -
  have z: "test_continuous_operation backend num_searches delay = Inl ZeroDivisionError"
    if "num_searches < 1"
  proof -
    from that have "nat num_searches = 0" by simp
    then show ?thesis
      by (simp add: test_continuous_operation_def summary_def py_div_def initial_stats_def)
  qed
  then have "\<forall>rep st. test_continuous_operation backend num_searches delay = Inr (rep, st) \<longrightarrow>
      1 \<le> num_searches"
    by (cases "num_searches < 1") auto
  moreover have "total_searches s \<noteq> 0 \<and> successful_searches s = 0 \<and> response_times s = [] \<and>
    suspended_engines s = [] \<longrightarrow>
      (\<exists>rep. summary s = Inr rep \<and> latency rep = None \<and>
             average_results rep = of_nat (total_results s))"
    by (simp add: summary_def py_div_def)
  ultimately show ?thesis using z by blast
qed

theorem summary_needs_a_search_witness:
  "test_continuous_operation unparseable_backend 0 (Num 1) = Inl ZeroDivisionError \<and>
   test_continuous_operation timeout_backend 1 (Num 1) =
     Inr (\<lparr>successful_pct = 0, failed_pct = 100, average_results = 0, latency = None,
            top10 = [], final_verdict = Warning\<rparr>,
          initial_stats\<lparr>total_searches := 1, failed_searches := 1\<rparr>) \<and>
   summary (initial_stats\<lparr>total_searches := 1, failed_searches := 1\<rparr>) =
     Inr \<lparr>successful_pct = 0, failed_pct = 100, average_results = 0, latency = None,
            top10 = [], final_verdict = Warning\<rparr>"
proof -
  let ?s = "initial_stats\<lparr>total_searches := 1, failed_searches := 1\<rparr>"
  let ?rep = "\<lparr>successful_pct = 0, failed_pct = 100, average_results = 0, latency = None,
            top10 = [], final_verdict = Warning\<rparr>"
  have a: "(0::int) < 1" by simp
  have b: "test_continuous_operation timeout_backend 1 (Num 1) = Inr (?rep, ?s)"
    by code_simp
  have c: "total_searches ?s \<noteq> 0 \<and> successful_searches ?s = 0 \<and> response_times ?s = [] \<and>
    suspended_engines ?s = []"
    by (simp add: initial_stats_def)
  have d: "summary ?s = Inr ?rep" by code_simp
  from summary_needs_a_search [of 0 unparseable_backend "Num 1" ?s] a
  have "test_continuous_operation unparseable_backend 0 (Num 1) = Inl ZeroDivisionError" by simp
  moreover from summary_needs_a_search [of 1 timeout_backend "Num 1" ?s] b c
  have "(1::int) \<le> 1 \<and> (\<exists>rep. summary ?s = Inr rep \<and> latency rep = None)" by blast
  ultimately show ?thesis using b d by simp
qed

section \<open>Properties of the engine report\<close>





text \<open>An example with two ties and more than ten engines.\<close>

lemma top_engines_example:
  "top_engines (initial_stats\<lparr>engines_used :=
       [(KStr ''a'', 2), (KStr ''b'', 5), (KStr ''c'', 2), (KStr ''d'', 5), (KStr ''e'', 1),
        (KStr ''f'', 1), (KStr ''g'', 1), (KStr ''h'', 1), (KStr ''i'', 1), (KStr ''j'', 1),
        (KStr ''k'', 1), (KStr ''l'', 7)]\<rparr>)
   = [(KStr ''l'', 7), (KStr ''b'', 5), (KStr ''d'', 5), (KStr ''a'', 2), (KStr ''c'', 2),
      (KStr ''e'', 1), (KStr ''f'', 1), (KStr ''g'', 1), (KStr ''h'', 1), (KStr ''i'', 1)]"
  by code_simp

end
